theory Spec2Isabelle
  imports Complex_Main "HOL-Library.Multiset" "HOL-Library.Sublist"
    "HOL-Library.Product_Lexorder"
begin

section \<open>The recommendation engine of Arina-BE\<close>

text \<open>
  A shallow embedding of \<^verbatim>\<open>src/dist/index.mjs\<close>: the four extractors, the seasonal
  advisor and \<^verbatim>\<open>generateRecommendations\<close> (lines 298 to 770), and the storage method
  \<^verbatim>\<open>createRecommendationSet\<close> (lines 253 to 261) with the call the recommendation
  service makes to it.

  Conventions of the embedding.
  \<^item> A JavaScript number read from a payload is a \<^typ>\<open>real\<close>: arithmetic is exact, so
    rounding, overflow and the sign of zero of IEEE doubles are not represented. A number
    that the code computes by a division is a \<open>jsnum\<close>, which adds the values
    \<^verbatim>\<open>Infinity\<close>, \<^verbatim>\<open>-Infinity\<close> and \<^verbatim>\<open>NaN\<close> that a zero divisor produces.
  \<^item> A property that may be missing from an object is an \<^typ>\<open>'a option\<close>; \<open>None\<close>
    is \<^verbatim>\<open>undefined\<close> (or \<^verbatim>\<open>null\<close>).
  \<^item> The wall clock is a function from the number of readings taken so far to the
    reading in milliseconds; every function that executes \<^verbatim>\<open>new Date()\<close> or
    \<^verbatim>\<open>Date.now()\<close> takes the clock and the count of readings and returns the new count.
  \<^item> A string is a list of bytes; case conversion and white space are those of ASCII.
\<close>

subsection \<open>Numbers\<close>

datatype jsnum = Fin real | PosInf | NegInf | NaN

text \<open>\<^verbatim>\<open>a / b\<close> on two finite numbers.\<close>

definition js_div :: "real \<Rightarrow> real \<Rightarrow> jsnum" where
  "js_div a b =
     (if b \<noteq> 0 then Fin (a / b)
      else if 0 < a then PosInf
      else if a < 0 then NegInf
      else NaN)"

text \<open>\<^verbatim>\<open>x * c\<close> for a finite \<open>c\<close>.\<close>

fun js_times :: "jsnum \<Rightarrow> real \<Rightarrow> jsnum" where
  "js_times (Fin a) c = Fin (a * c)"
| "js_times PosInf c = (if 0 < c then PosInf else if c < 0 then NegInf else NaN)"
| "js_times NegInf c = (if 0 < c then NegInf else if c < 0 then PosInf else NaN)"
| "js_times NaN c = NaN"

text \<open>\<^verbatim>\<open>Math.abs\<close>.\<close>

fun js_abs :: "jsnum \<Rightarrow> jsnum" where
  "js_abs (Fin a) = Fin \<bar>a\<bar>"
| "js_abs PosInf = PosInf"
| "js_abs NegInf = PosInf"
| "js_abs NaN = NaN"

text \<open>\<^verbatim>\<open>x < y\<close>; every comparison with \<^verbatim>\<open>NaN\<close> is false.\<close>

fun js_less :: "jsnum \<Rightarrow> jsnum \<Rightarrow> bool" where
  "js_less (Fin a) (Fin b) = (a < b)"
| "js_less NaN y = False"
| "js_less x NaN = False"
| "js_less NegInf NegInf = False"
| "js_less NegInf y = True"
| "js_less x NegInf = False"
| "js_less PosInf y = False"
| "js_less x PosInf = True"

text \<open>\<^verbatim>\<open>x > y\<close>.\<close>

definition js_greater :: "jsnum \<Rightarrow> jsnum \<Rightarrow> bool" where
  "js_greater x y = js_less y x"

subsection \<open>Strings\<close>

text \<open>The decimal digits of a natural number (\<^verbatim>\<open>String(n)\<close>).\<close>

fun digits :: "nat \<Rightarrow> string" where
  "digits n =
     (if n < 10 then [''0123456789'' ! n]
      else digits (n div 10) @ [''0123456789'' ! (n mod 10)])"

declare digits.simps [simp del]

definition string_of_int :: "int \<Rightarrow> string" where
  "string_of_int i = (if i < 0 then ''-'' @ digits (nat (- i)) else digits (nat i))"

text \<open>
  \<^verbatim>\<open>x.toFixed(f)\<close>: the integer \<open>n\<close> nearest to \<open>|x| * 10 ^ f\<close> (the larger one on a
  tie), padded to \<open>f + 1\<close> digits, with the point before the last \<open>f\<close> digits. JavaScript
  switches to exponent notation from \<open>10 ^ 21\<close> on, which is not reproduced here.
\<close>

definition toFixed :: "nat \<Rightarrow> jsnum \<Rightarrow> string" where
  "toFixed f x =
     (case x of
        NaN \<Rightarrow> ''NaN''
      | PosInf \<Rightarrow> ''Infinity''
      | NegInf \<Rightarrow> ''-Infinity''
      | Fin r \<Rightarrow>
          (let n = nat \<lfloor>\<bar>r\<bar> * 10 ^ f + 1 / 2\<rfloor>;
               ds = digits n;
               m = replicate (Suc f - length ds) CHR ''0'' @ ds;
               a = take (length m - f) m;
               b = drop (length m - f) m
           in (if r < 0 then ''-'' else '''') @ a @ (if f = 0 then '''' else ''.'' @ b)))"

text \<open>A string property inside a template literal; \<^verbatim>\<open>undefined\<close> prints as its name.\<close>

definition str_of :: "string option \<Rightarrow> string" where
  "str_of v = (case v of None \<Rightarrow> ''undefined'' | Some s \<Rightarrow> s)"

text \<open>\<^verbatim>\<open>xs.join(sep)\<close>.\<close>

fun join :: "string \<Rightarrow> string list \<Rightarrow> string" where
  "join sep [] = []"
| "join sep [x] = x"
| "join sep (x # y # ys) = x @ sep @ join sep (y # ys)"

definition toLowerChar :: "char \<Rightarrow> char" where
  "toLowerChar c =
     (case map_of (zip ''ABCDEFGHIJKLMNOPQRSTUVWXYZ'' ''abcdefghijklmnopqrstuvwxyz'') c of
        Some d \<Rightarrow> d
      | None \<Rightarrow> c)"

definition toUpperChar :: "char \<Rightarrow> char" where
  "toUpperChar c =
     (case map_of (zip ''abcdefghijklmnopqrstuvwxyz'' ''ABCDEFGHIJKLMNOPQRSTUVWXYZ'') c of
        Some d \<Rightarrow> d
      | None \<Rightarrow> c)"

definition toLowerCase :: "string \<Rightarrow> string" where
  "toLowerCase s = map toLowerChar s"

text \<open>\<^verbatim>\<open>s.includes(k)\<close>: \<open>k\<close> occurs in \<open>s\<close> as a contiguous substring.\<close>

fun includes_str :: "string \<Rightarrow> string \<Rightarrow> bool" where
  "includes_str [] k = (k = [])"
| "includes_str (c # cs) k = (prefix k (c # cs) \<or> includes_str cs k)"

definition is_delim :: "char \<Rightarrow> bool" where
  "is_delim c = (c = CHR ''.'' \<or> c = CHR ''!'' \<or> c = CHR ''?'')"

text \<open>
  \<^verbatim>\<open>s.split(/[.!?]+/)\<close>: the pieces between maximal runs of the three delimiters. A
  delimiter that is followed by another one continues the run; the last delimiter of a
  run closes the current piece. A string that ends in a delimiter has an empty last piece.
\<close>

fun split_sentences :: "string \<Rightarrow> string list" where
  "split_sentences [] = [[]]"
| "split_sentences (c # cs) =
     (if is_delim c then
        (if cs \<noteq> [] \<and> is_delim (hd cs) then split_sentences cs
         else [] # split_sentences cs)
      else
        (case split_sentences cs of
           p # ps \<Rightarrow> (c # p) # ps
         | [] \<Rightarrow> [[c]]))"

definition is_space :: "char \<Rightarrow> bool" where
  "is_space c = (c \<in> set [CHR '' '', CHR 0x09, CHR 0x0A, CHR 0x0B, CHR 0x0C, CHR 0x0D])"

text \<open>\<^verbatim>\<open>s.trim()\<close>.\<close>

definition trim :: "string \<Rightarrow> string" where
  "trim s = rev (dropWhile is_space (rev (dropWhile is_space s)))"

subsection \<open>Sorting\<close>

text \<open>
  \<^verbatim>\<open>Array.prototype.sort(comparefn)\<close> is modelled as the stable insertion sort: each
  element in turn is moved towards the front past every element \<open>y\<close> of the sorted prefix
  for which \<open>comparefn(y, x) > 0\<close>, and stops at the first one for which it is not. The
  sorted prefix is held in reverse, so the scan from the end of the prefix is a recursion
  from the head of the list. For a comparator that orders the elements consistently every
  stable sort returns this result. The comparator of the second ranking pass does not, and
  for it the result is the one of this algorithm.
\<close>

fun insert_back :: "('a \<Rightarrow> 'a \<Rightarrow> real) \<Rightarrow> 'a \<Rightarrow> 'a list \<Rightarrow> 'a list" where
  "insert_back cmp x [] = [x]"
| "insert_back cmp x (y # ys) =
     (if 0 < cmp y x then y # insert_back cmp x ys else x # y # ys)"

definition js_sort :: "('a \<Rightarrow> 'a \<Rightarrow> real) \<Rightarrow> 'a list \<Rightarrow> 'a list" where
  "js_sort cmp xs = rev (foldl (\<lambda>acc x. insert_back cmp x acc) [] xs)"

subsection \<open>Data model\<close>

text \<open>The evidence payload \<^verbatim>\<open>data\<close> of a candidate, an object literal of numbers, strings
  and arrays.\<close>

datatype jsval =
    JUndefined
  | JNum jsnum
  | JStr string
  | JArr "jsval list"
  | JObj "(string \<times> jsval) list"

definition num_val :: "real option \<Rightarrow> jsval" where
  "num_val v = (case v of None \<Rightarrow> JUndefined | Some x \<Rightarrow> JNum (Fin x))"

definition str_val :: "string option \<Rightarrow> jsval" where
  "str_val v = (case v of None \<Rightarrow> JUndefined | Some s \<Rightarrow> JStr s)"

text \<open>
  The payload of an analysis result. Its shape depends on the type of the analysis; the
  extractors read the properties below, each of which may be missing. Elements of the
  arrays are objects that carry their numeric properties.

  Field names are those of the source, except where two records would share a name or
  the name is reserved: \<open>cost_name\<close>, \<open>var_name\<close>, \<open>con_name\<close> and \<open>model_name\<close> are the
  properties \<^verbatim>\<open>name\<close>; \<open>point_value\<close> and \<open>var_value\<close> are \<^verbatim>\<open>value\<close>; \<open>result_id\<close>,
  \<open>rec_id\<close> and \<open>set_id\<close> are \<^verbatim>\<open>id\<close>; \<open>result_type\<close> and \<open>rec_type\<close> are \<^verbatim>\<open>type\<close>;
  \<open>rec_data\<close> is the \<^verbatim>\<open>data\<close> of a candidate; \<open>sent_at\<close> is the \<^verbatim>\<open>created_at\<close> of a
  message; \<open>set_userId\<close> and \<open>set_createdAt\<close> are the \<^verbatim>\<open>userId\<close> and \<^verbatim>\<open>createdAt\<close> of the
  result of \<^verbatim>\<open>generateRecommendations\<close>.
\<close>

record operational_cost =
  cost_name :: string
  amount :: real

record forecast_point =
  forecast :: real

record historical_point =
  point_value :: real

record chart =
  historical :: "historical_point list option"

record accuracy =
  mape :: "real option"

record variable =
  var_name :: string
  var_value :: real

record constraint =
  con_name :: string
  slack :: real

record analysis_data =
  businessName :: "string option"
  profitMargin :: "real option"
  roi :: "real option"
  paybackPeriod :: "real option"
  operationalCosts :: "operational_cost list option"
  breakEvenUnits :: "real option"
  monthlySalesVolume :: "real option"
  productName :: "string option"
  forecasted :: "forecast_point list option"
  chart :: "chart option"
  accuracy :: "accuracy option"
  model_name :: "string option"
  feasible :: "bool option"
  objectiveValue :: "real option"
  variables :: "variable list option"
  constraints :: "constraint list option"

record analysis_result =
  result_id :: string
  user_id :: string
  result_type :: string
  data :: analysis_data
  created_at :: "int option"
  updated_at :: "int option"

record chat_message =
  message_id :: string
  conversation_id :: string
  role :: string
  content :: string
  sent_at :: "int option"

datatype recommendation_type = TBusiness | TMarket | TResource | TCrop

datatype recommendation_source = SAnalysis | SPattern | SChat | SSeasonal

text \<open>A candidate. \<open>createdAt\<close> is \<open>Some t\<close> for a \<^verbatim>\<open>Date\<close> with time value \<open>t\<close> and
  \<open>None\<close> for a value that is not a \<^verbatim>\<open>Date\<close>.\<close>

record recommendation =
  rec_id :: string
  rec_type :: recommendation_type
  title :: string
  description :: string
  confidence :: real
  rec_data :: jsval
  source :: recommendation_source
  createdAt :: "int option"

datatype season = Spring | Summer | Fall | Winter

record recommendation_input =
  userId :: string
  analysisResults :: "analysis_result list"
  chatHistory :: "chat_message list"
  currentSeason :: "season option"

subsection \<open>The clock and the loop over records\<close>

type_synonym clock = "nat \<Rightarrow> int"

text \<open>A piece of code that pushes candidates and reads the clock: from the number of
  readings taken so far to the candidates pushed and the new number of readings.\<close>

type_synonym emitter = "nat \<Rightarrow> recommendation list \<times> nat"

definition then_emit :: "emitter \<Rightarrow> emitter \<Rightarrow> emitter" where
  "then_emit f g k = (let (xs, k1) = f k; (ys, k2) = g k1 in (xs @ ys, k2))"

definition no_emit :: emitter where
  "no_emit k = ([], k)"

fun forEach :: "('r \<Rightarrow> emitter) \<Rightarrow> 'r list \<Rightarrow> emitter" where
  "forEach body [] = no_emit"
| "forEach body (r # rs) = then_emit (body r) (forEach body rs)"

subsection \<open>Recency\<close>

definition time_or_zero :: "int option \<Rightarrow> int" where
  "time_or_zero d = (case d of None \<Rightarrow> 0 | Some t \<Rightarrow> t)"

definition sortByRecency :: "analysis_result list \<Rightarrow> analysis_result list" where
  "sortByRecency results =
     js_sort (\<lambda>a b. real_of_int (time_or_zero (created_at b) - time_or_zero (created_at a)))
       results"

subsection \<open>Business-feasibility extractor\<close>

text \<open>Each \<^verbatim>\<open>if\<close> block of a loop body that pushes a candidate is a definition of its
  own, here and in the other extractors; the loop body runs them in the order of the
  source.\<close>

definition biz_profit :: "clock \<Rightarrow> analysis_result \<Rightarrow> emitter" where
  "biz_profit clk result k =
     (case profitMargin (data result) of
        None \<Rightarrow> ([], k)
      | Some pm \<Rightarrow>
          if pm \<noteq> 0 \<and> 0.25 < pm then
            ([\<lparr> rec_id = ''biz-profit-'' @ result_id result,
                rec_type = TBusiness,
                title = ''Profitable Business Model'',
                description = ''Your '' @ str_of (businessName (data result))
                  @ '' shows a strong profit margin of '' @ toFixed 1 (Fin (pm * 100))
                  @ ''%. Consider scaling operations while maintaining current cost structure.'',
                confidence = 0.8,
                rec_data = JObj [(''profitMargin'', JNum (Fin pm)),
                                 (''roi'', num_val (roi (data result))),
                                 (''businessName'', str_val (businessName (data result)))],
                source = SAnalysis,
                createdAt = Some (clk k) \<rparr>], Suc k)
          else ([], k))"

definition biz_roi :: "clock \<Rightarrow> analysis_result \<Rightarrow> emitter" where
  "biz_roi clk result k =
     (case roi (data result) of
        None \<Rightarrow> ([], k)
      | Some r \<Rightarrow>
          if r \<noteq> 0 \<and> 0.15 < r then
            ([\<lparr> rec_id = ''biz-roi-'' @ result_id result,
                rec_type = TBusiness,
                title = ''Strong Return on Investment'',
                description = ''Your investment in '' @ str_of (businessName (data result))
                  @ '' shows a '' @ toFixed 1 (Fin (r * 100))
                  @ ''% ROI. Consider additional investment in similar ventures.'',
                confidence = 0.75,
                rec_data = JObj [(''roi'', JNum (Fin r)),
                                 (''paybackPeriod'', num_val (paybackPeriod (data result)))],
                source = SAnalysis,
                createdAt = Some (clk k) \<rparr>], Suc k)
          else ([], k))"

definition biz_cost :: "clock \<Rightarrow> analysis_result \<Rightarrow> emitter" where
  "biz_cost clk result k =
     (case operationalCosts (data result) of
        None \<Rightarrow> ([], k)
      | Some costs \<Rightarrow>
          (case js_sort (\<lambda>a b. amount b - amount a) costs of
             [] \<Rightarrow> ([], k)
           | highestCost # others \<Rightarrow>
               (let costPercentage =
                      js_div (amount highestCost) (sum_list (map amount (highestCost # others)))
                in if js_greater costPercentage (Fin 0.3) then
                     ([\<lparr> rec_id = ''biz-cost-'' @ result_id result,
                         rec_type = TResource,
                         title = ''Cost Reduction Opportunity'',
                         description = cost_name highestCost @ '' represents ''
                           @ toFixed 1 (js_times costPercentage 100)
                           @ ''% of your operational costs. Reducing this could significantly improve profitability.'',
                         confidence = 0.7,
                         rec_data = JObj [(''costName'', JStr (cost_name highestCost)),
                                          (''costAmount'', JNum (Fin (amount highestCost))),
                                          (''percentage'', JNum costPercentage)],
                         source = SAnalysis,
                         createdAt = Some (clk k) \<rparr>], Suc k)
                   else ([], k))))"

definition biz_breakeven :: "clock \<Rightarrow> analysis_result \<Rightarrow> emitter" where
  "biz_breakeven clk result k =
     (case (breakEvenUnits (data result), monthlySalesVolume (data result)) of
        (Some units, Some volume) \<Rightarrow>
          if units \<noteq> 0 \<and> volume \<noteq> 0 then
            (let breakEvenRatio = units / volume
             in if breakEvenRatio < 0.5 then
                  ([\<lparr> rec_id = ''biz-breakeven-'' @ result_id result,
                      rec_type = TBusiness,
                      title = ''Favorable Break-Even Point'',
                      description = ''You reach break-even at just ''
                        @ toFixed 1 (Fin (breakEvenRatio * 100))
                        @ ''% of your monthly sales volume. This gives you a safety margin in market fluctuations.'',
                      confidence = 0.85,
                      rec_data = JObj [(''breakEvenUnits'', JNum (Fin units)),
                                       (''monthlySalesVolume'', JNum (Fin volume)),
                                       (''ratio'', JNum (Fin breakEvenRatio))],
                      source = SAnalysis,
                      createdAt = Some (clk k) \<rparr>], Suc k)
                else ([], k))
          else ([], k)
      | _ \<Rightarrow> ([], k))"

text \<open>The body of the loop over the recent records: the four rules in turn.\<close>

definition businessRecord :: "clock \<Rightarrow> analysis_result \<Rightarrow> emitter" where
  "businessRecord clk result =
     then_emit (biz_profit clk result)
       (then_emit (biz_roi clk result)
         (then_emit (biz_cost clk result) (biz_breakeven clk result)))"

definition extractBusinessRecommendations :: "clock \<Rightarrow> analysis_result list \<Rightarrow> emitter" where
  "extractBusinessRecommendations clk results =
     forEach (businessRecord clk)
       (take 3 (sortByRecency (filter (\<lambda>r. result_type r = ''business_feasibility'') results)))"

subsection \<open>Demand-forecast extractor\<close>

definition forecast_trend :: "clock \<Rightarrow> analysis_result \<Rightarrow> emitter" where
  "forecast_trend clk result k =
     (case forecasted (data result) of
        None \<Rightarrow> ([], k)
      | Some points \<Rightarrow>
          if 1 < length points then
            (let firstForecast = forecast (points ! 0);
                 lastForecast = forecast (points ! (length points - 1));
                 growthRate = js_div (lastForecast - firstForecast) firstForecast
             in if js_greater growthRate (Fin 0.1) then
                  ([\<lparr> rec_id = ''forecast-growth-'' @ result_id result,
                      rec_type = TMarket,
                      title = ''Growing Demand Trend'',
                      description = ''Demand for '' @ str_of (productName (data result))
                        @ '' is projected to grow by '' @ toFixed 1 (js_times growthRate 100)
                        @ ''% over the forecast period. Consider increasing production capacity.'',
                      confidence = 0.75,
                      rec_data = JObj [(''productName'', str_val (productName (data result))),
                                       (''growthRate'', JNum growthRate),
                                       (''firstForecast'', JNum (Fin firstForecast)),
                                       (''lastForecast'', JNum (Fin lastForecast))],
                      source = SAnalysis,
                      createdAt = Some (clk k) \<rparr>], Suc k)
                else if js_less growthRate (Fin (- 0.1)) then
                  ([\<lparr> rec_id = ''forecast-decline-'' @ result_id result,
                      rec_type = TMarket,
                      title = ''Declining Demand Alert'',
                      description = ''Demand for '' @ str_of (productName (data result))
                        @ '' is projected to decline by ''
                        @ toFixed 1 (js_times (js_abs growthRate) 100)
                        @ ''% over the forecast period. Consider diversifying your product mix.'',
                      confidence = 0.75,
                      rec_data = JObj [(''productName'', str_val (productName (data result))),
                                       (''declineRate'', JNum (js_abs growthRate)),
                                       (''firstForecast'', JNum (Fin firstForecast)),
                                       (''lastForecast'', JNum (Fin lastForecast))],
                      source = SAnalysis,
                      createdAt = Some (clk k) \<rparr>], Suc k)
                else ([], k))
          else ([], k))"

definition forecast_seasonal :: "clock \<Rightarrow> analysis_result \<Rightarrow> emitter" where
  "forecast_seasonal clk result k =
     (case chart (data result) of
        None \<Rightarrow> ([], k)
      | Some c \<Rightarrow>
          (case historical c of
             None \<Rightarrow> ([], k)
           | Some hist \<Rightarrow>
               (let vals = map point_value hist;
                    avg = js_div (sum_list vals) (real (length vals));
                    peaks = length (filter (\<lambda>v. js_greater (Fin v) (js_times avg 1.2)) vals)
                in if 2 \<le> peaks then
                     ([\<lparr> rec_id = ''forecast-seasonal-'' @ result_id result,
                         rec_type = TMarket,
                         title = ''Seasonal Demand Pattern'',
                         description = str_of (productName (data result))
                           @ '' shows seasonal demand patterns with '' @ digits peaks
                           @ '' peak periods. Plan inventory and production to align with these patterns.'',
                         confidence = 0.7,
                         rec_data = JObj [(''productName'', str_val (productName (data result))),
                                          (''peakPeriods'', JNum (Fin (real peaks))),
                                          (''averageDemand'', JNum avg)],
                         source = SPattern,
                         createdAt = Some (clk k) \<rparr>], Suc k)
                   else ([], k))))"

definition forecast_accuracy :: "clock \<Rightarrow> analysis_result \<Rightarrow> emitter" where
  "forecast_accuracy clk result k =
     (case accuracy (data result) of
        None \<Rightarrow> ([], k)
      | Some acc \<Rightarrow>
          (case mape acc of
             None \<Rightarrow> ([], k)
           | Some m \<Rightarrow>
               if m \<noteq> 0 \<and> m < 10 then
                 ([\<lparr> rec_id = ''forecast-accuracy-'' @ result_id result,
                     rec_type = TBusiness,
                     title = ''High Forecast Reliability'',
                     description = ''Your '' @ str_of (productName (data result))
                       @ '' forecast has a high accuracy (MAPE: '' @ toFixed 1 (Fin m)
                       @ ''%). Use this forecast with confidence for planning.'',
                     confidence = 0.8,
                     rec_data = JObj [(''productName'', str_val (productName (data result))),
                                      (''mape'', JNum (Fin m))],
                     source = SAnalysis,
                     createdAt = Some (clk k) \<rparr>], Suc k)
               else if m \<noteq> 0 \<and> 20 < m then
                 ([\<lparr> rec_id = ''forecast-inaccuracy-'' @ result_id result,
                     rec_type = TBusiness,
                     title = ''Forecast Uncertainty Alert'',
                     description = ''Your '' @ str_of (productName (data result))
                       @ '' forecast has a higher error rate (MAPE: '' @ toFixed 1 (Fin m)
                       @ ''%). Consider using more historical data or adjusting your forecast method.'',
                     confidence = 0.7,
                     rec_data = JObj [(''productName'', str_val (productName (data result))),
                                      (''mape'', JNum (Fin m))],
                     source = SAnalysis,
                     createdAt = Some (clk k) \<rparr>], Suc k)
               else ([], k)))"

definition forecastRecord :: "clock \<Rightarrow> analysis_result \<Rightarrow> emitter" where
  "forecastRecord clk result =
     then_emit (forecast_trend clk result)
       (then_emit (forecast_seasonal clk result) (forecast_accuracy clk result))"

definition extractForecastRecommendations :: "clock \<Rightarrow> analysis_result list \<Rightarrow> emitter" where
  "extractForecastRecommendations clk results =
     forEach (forecastRecord clk)
       (take 3 (sortByRecency (filter (\<lambda>r. result_type r = ''demand_forecast'') results)))"

subsection \<open>Optimization extractor\<close>

definition opt_feasible :: "clock \<Rightarrow> analysis_result \<Rightarrow> emitter" where
  "opt_feasible clk result k =
     ([\<lparr> rec_id = ''opt-feasible-'' @ result_id result,
         rec_type = TResource,
         title = ''Optimal Resource Allocation'',
         description = ''Your '' @ str_of (model_name (data result))
           @ '' optimization model has a feasible solution with ''
           @ (case objectiveValue (data result) of
                None \<Rightarrow> ''optimized resource allocation''
              | Some v \<Rightarrow>
                  if v \<noteq> 0 then ''an objective value of '' @ toFixed 2 (Fin v)
                  else ''optimized resource allocation'')
           @ ''.'',
         confidence = 0.9,
         rec_data = JObj [(''optimizationName'', str_val (model_name (data result))),
                          (''objectiveValue'', num_val (objectiveValue (data result)))],
         source = SAnalysis,
         createdAt = Some (clk k) \<rparr>], Suc k)"

definition opt_resources :: "clock \<Rightarrow> analysis_result \<Rightarrow> emitter" where
  "opt_resources clk result k =
     (case variables (data result) of
        None \<Rightarrow> ([], k)
      | Some vars \<Rightarrow>
          (let significantVariables =
                 take 3 (js_sort (\<lambda>a b. var_value b - var_value a)
                           (filter (\<lambda>v. 0 < var_value v) vars))
           in if 0 < length significantVariables then
                ([\<lparr> rec_id = ''opt-resources-'' @ result_id result,
                    rec_type = TResource,
                    title = ''Key Resource Allocation'',
                    description = ''Focus on these resources for optimal results: ''
                      @ join '', ''
                          (map (\<lambda>v. var_name v @ '': '' @ toFixed 2 (Fin (var_value v)))
                             significantVariables),
                    confidence = 0.8,
                    rec_data = JObj [(''optimizationName'', str_val (model_name (data result))),
                                     (''topResources'',
                                      JArr (map (\<lambda>v. JObj [(''name'', JStr (var_name v)),
                                                             (''value'', JNum (Fin (var_value v)))])
                                              significantVariables))],
                    source = SAnalysis,
                    createdAt = Some (clk k) \<rparr>], Suc k)
              else ([], k)))"

definition opt_constraints :: "clock \<Rightarrow> analysis_result \<Rightarrow> emitter" where
  "opt_constraints clk result k =
     (case constraints (data result) of
        None \<Rightarrow> ([], k)
      | Some cons \<Rightarrow>
          (let bindingConstraints =
                 map con_name (filter (\<lambda>c. slack c = 0 \<or> \<bar>slack c\<bar> < 0.001) cons)
           in if 0 < length bindingConstraints then
                ([\<lparr> rec_id = ''opt-constraints-'' @ result_id result,
                    rec_type = TBusiness,
                    title = ''Resource Bottlenecks Identified'',
                    description = ''These factors are limiting your optimization: ''
                      @ join '', '' bindingConstraints
                      @ ''. Consider increasing these resources.'',
                    confidence = 0.85,
                    rec_data = JObj [(''optimizationName'', str_val (model_name (data result))),
                                     (''bindingConstraints'', JArr (map JStr bindingConstraints))],
                    source = SAnalysis,
                    createdAt = Some (clk k) \<rparr>], Suc k)
              else ([], k)))"

definition opt_infeasible :: "clock \<Rightarrow> analysis_result \<Rightarrow> emitter" where
  "opt_infeasible clk result k =
     ([\<lparr> rec_id = ''opt-infeasible-'' @ result_id result,
         rec_type = TBusiness,
         title = ''Resource Constraints Too Tight'',
         description = ''Your '' @ str_of (model_name (data result))
           @ '' optimization model doesn't have a feasible solution. Consider relaxing some constraints or adding more resources.'',
         confidence = 0.9,
         rec_data = JObj [(''optimizationName'', str_val (model_name (data result)))],
         source = SAnalysis,
         createdAt = Some (clk k) \<rparr>], Suc k)"

text \<open>The body of the loop: \<^verbatim>\<open>data.feasible === true\<close>, else
  \<^verbatim>\<open>data.feasible === false\<close>, else nothing. \<open>None\<close> is a \<^verbatim>\<open>feasible\<close> property that
  is missing or is not a boolean.\<close>

definition optimizationRecord :: "clock \<Rightarrow> analysis_result \<Rightarrow> emitter" where
  "optimizationRecord clk result =
     (case feasible (data result) of
        Some True \<Rightarrow>
          then_emit (opt_feasible clk result)
            (then_emit (opt_resources clk result) (opt_constraints clk result))
      | Some False \<Rightarrow> opt_infeasible clk result
      | None \<Rightarrow> no_emit)"

definition extractOptimizationRecommendations :: "clock \<Rightarrow> analysis_result list \<Rightarrow> emitter" where
  "extractOptimizationRecommendations clk results =
     forEach (optimizationRecord clk)
       (take 3 (sortByRecency (filter (\<lambda>r. result_type r = ''optimization'') results)))"

subsection \<open>Chat-insight extractor\<close>

datatype category = CGrowth | CProfit | CCost | CRisk | CMarket | CSeasonal | CResource

fun category_name :: "category \<Rightarrow> string" where
  "category_name CGrowth = ''growth''"
| "category_name CProfit = ''profit''"
| "category_name CCost = ''cost''"
| "category_name CRisk = ''risk''"
| "category_name CMarket = ''market''"
| "category_name CSeasonal = ''seasonal''"
| "category_name CResource = ''resource''"

text \<open>The entries of \<^verbatim>\<open>keywordMap\<close>, in the order of the object literal.\<close>

definition keywordMap :: "(string \<times> category) list" where
  "keywordMap =
     [(''increase'', CGrowth), (''expand'', CGrowth), (''grow'', CGrowth),
      (''profit'', CProfit), (''revenue'', CProfit),
      (''cost'', CCost), (''expense'', CCost), (''save'', CCost),
      (''risk'', CRisk),
      (''market'', CMarket), (''demand'', CMarket), (''customer'', CMarket),
      (''season'', CSeasonal), (''weather'', CSeasonal), (''climate'', CSeasonal),
      (''resource'', CResource), (''water'', CResource), (''soil'', CResource),
      (''fertilizer'', CResource), (''pest'', CResource), (''equipment'', CResource)]"

text \<open>The keys of \<^verbatim>\<open>categories\<close>, in the order of the object literal.\<close>

definition category_keys :: "category list" where
  "category_keys = [CGrowth, CProfit, CCost, CRisk, CMarket, CSeasonal, CResource]"

type_synonym buckets = "category \<Rightarrow> string list"

text \<open>The \<^verbatim>\<open>switch\<close> on the category; \<open>CRisk\<close> is not listed and takes the default.\<close>

fun category_type :: "category \<Rightarrow> recommendation_type" where
  "category_type CGrowth = TBusiness"
| "category_type CProfit = TBusiness"
| "category_type CMarket = TMarket"
| "category_type CSeasonal = TMarket"
| "category_type CResource = TResource"
| "category_type CCost = TResource"
| "category_type _ = TBusiness"

fun category_title :: "category \<Rightarrow> string" where
  "category_title CGrowth = ''Growth Opportunity''"
| "category_title CProfit = ''Profit Enhancement''"
| "category_title CCost = ''Cost Saving Opportunity''"
| "category_title CRisk = ''Risk Management''"
| "category_title CMarket = ''Market Intelligence''"
| "category_title CSeasonal = ''Seasonal Planning''"
| "category_title CResource = ''Resource Optimization''"

definition recentMessages :: "chat_message list \<Rightarrow> chat_message list" where
  "recentMessages messages =
     take 10
       (js_sort (\<lambda>a b. real_of_int (time_or_zero (sent_at b) - time_or_zero (sent_at a)))
          (filter (\<lambda>m. role m = ''assistant'') messages))"

text \<open>One entry of the keyword table against one message.\<close>

definition collect_keyword :: "chat_message \<Rightarrow> string \<times> category \<Rightarrow> buckets \<Rightarrow> buckets" where
  "collect_keyword message entry categories =
     (if includes_str (toLowerCase (content message)) (fst entry) then
        (case filter (\<lambda>s. includes_str (toLowerCase s) (fst entry))
                (split_sentences (content message)) of
           [] \<Rightarrow> categories
         | sentence # others \<Rightarrow>
             categories (snd entry := categories (snd entry) @ [trim sentence]))
      else categories)"

definition collect_message :: "chat_message \<Rightarrow> buckets \<Rightarrow> buckets" where
  "collect_message message categories = fold (collect_keyword message) keywordMap categories"

definition collect_categories :: "chat_message list \<Rightarrow> buckets" where
  "collect_categories messages = fold collect_message (recentMessages messages) (\<lambda>c. [])"

definition chat_candidate :: "clock \<Rightarrow> buckets \<Rightarrow> category \<Rightarrow> emitter" where
  "chat_candidate clk categories c k =
     (case categories c of
        [] \<Rightarrow> ([], k)
      | topSentence # others \<Rightarrow>
          ([\<lparr> rec_id = ''chat-'' @ category_name c @ ''-'' @ string_of_int (clk k),
              rec_type = category_type c,
              title = category_title c,
              description = topSentence,
              confidence = 0.6,
              rec_data = JObj [(''category'', JStr (category_name c)),
                               (''relatedSentences'', JArr (map JStr (categories c)))],
              source = SChat,
              createdAt = Some (clk (Suc k)) \<rparr>], Suc (Suc k)))"

definition extractChatInsights :: "clock \<Rightarrow> chat_message list \<Rightarrow> emitter" where
  "extractChatInsights clk messages =
     forEach (chat_candidate clk (collect_categories messages)) category_keys"

subsection \<open>Seasonal advisor\<close>

fun season_name :: "season \<Rightarrow> string" where
  "season_name Spring = ''spring''"
| "season_name Summer = ''summer''"
| "season_name Fall = ''fall''"
| "season_name Winter = ''winter''"

fun seasonalCrops :: "season \<Rightarrow> string list" where
  "seasonalCrops Spring = [''Corn'', ''Soybeans'', ''Rice'', ''Cotton'', ''Vegetables'']"
| "seasonalCrops Summer = [''Sunflower'', ''Sorghum'', ''Millet'', ''Vegetables'', ''Fruits'']"
| "seasonalCrops Fall = [''Winter Wheat'', ''Barley'', ''Rapeseed'', ''Root vegetables'']"
| "seasonalCrops Winter = [''Planning'', ''Equipment maintenance'', ''Soil preparation'']"

fun seasonalActivities :: "season \<Rightarrow> string list" where
  "seasonalActivities Spring =
     [''Planting'', ''Soil preparation'', ''Fertilizing'', ''Pest management planning'']"
| "seasonalActivities Summer =
     [''Irrigation management'', ''Pest control'', ''Crop monitoring'', ''Early harvest planning'']"
| "seasonalActivities Fall =
     [''Harvesting'', ''Storage preparation'', ''Market research'', ''Winter crop planting'']"
| "seasonalActivities Winter =
     [''Equipment maintenance'', ''Financial planning'', ''Education'', ''Crop planning'']"

text \<open>\<^verbatim>\<open>s.charAt(0).toUpperCase() + s.slice(1)\<close>.\<close>

definition capitalize :: "string \<Rightarrow> string" where
  "capitalize s = (case s of [] \<Rightarrow> [] | c # cs \<Rightarrow> toUpperChar c # cs)"

definition addSeasonalRecommendations :: "clock \<Rightarrow> season option \<Rightarrow> emitter" where
  "addSeasonalRecommendations clk season_given k =
     (case season_given of
        None \<Rightarrow> ([], k)
      | Some s \<Rightarrow>
          ([\<lparr> rec_id = ''seasonal-crop-'' @ string_of_int (clk k),
              rec_type = TCrop,
              title = capitalize (season_name s) @ '' Crop Recommendations'',
              description = ''Consider focusing on these crops this '' @ season_name s
                @ '': '' @ join '', '' (seasonalCrops s) @ ''.'',
              confidence = 0.7,
              rec_data = JObj [(''season'', JStr (season_name s)),
                               (''recommendedCrops'', JArr (map JStr (seasonalCrops s)))],
              source = SSeasonal,
              createdAt = Some (clk (k + 1)) \<rparr>,
            \<lparr> rec_id = ''seasonal-activity-'' @ string_of_int (clk (k + 2)),
              rec_type = TBusiness,
              title = capitalize (season_name s) @ '' Activity Focus'',
              description = ''Key activities for this '' @ season_name s
                @ '': '' @ join '', '' (seasonalActivities s) @ ''.'',
              confidence = 0.7,
              rec_data = JObj [(''season'', JStr (season_name s)),
                               (''recommendedActivities'',
                                JArr (map JStr (seasonalActivities s)))],
              source = SSeasonal,
              createdAt = Some (clk (k + 3)) \<rparr>], k + 4))"

subsection \<open>Aggregation, ranking and summary\<close>

text \<open>
  \<^verbatim>\<open>d.toDateString()\<close> is the text of the calendar day of \<open>d\<close>. Two such texts are equal
  exactly when the days are, so the text is represented by the number of the day, counted
  from the epoch in a zone without offset.
\<close>

definition toDateString :: "int \<Rightarrow> int" where
  "toDateString t = t div 86400000"

text \<open>The comparator of the first pass: \<^verbatim>\<open>dateB - dateA\<close> on the time values, \<open>0\<close> for
  a value that is not a \<^verbatim>\<open>Date\<close>.\<close>

definition compare_time :: "recommendation \<Rightarrow> recommendation \<Rightarrow> real" where
  "compare_time a b =
     real_of_int (time_or_zero (createdAt b) - time_or_zero (createdAt a))"

text \<open>The comparator of the second pass: on equal day texts the difference of the
  confidences, otherwise \<open>0\<close>. The day text of a value that is not a \<^verbatim>\<open>Date\<close> is the empty
  string, here \<open>None\<close>.\<close>

definition compare_day_confidence :: "recommendation \<Rightarrow> recommendation \<Rightarrow> real" where
  "compare_day_confidence a b =
     (if map_option toDateString (createdAt a) = map_option toDateString (createdAt b)
      then confidence b - confidence a
      else 0)"

text \<open>The two calls of \<^verbatim>\<open>allRecommendations.sort\<close>, one after the other.\<close>

definition rank :: "recommendation list \<Rightarrow> recommendation list" where
  "rank recs = js_sort compare_day_confidence (js_sort compare_time recs)"

definition fallback_summary :: string where
  "fallback_summary =
     ''Insufficient data for personalized recommendations. Continue using Arina to analyze your agricultural business for tailored insights.''"

definition title_sentence :: "recommendation option \<Rightarrow> string" where
  "title_sentence r = (case r of None \<Rightarrow> [] | Some x \<Rightarrow> title x @ ''. '')"

definition count_type :: "string \<Rightarrow> analysis_result list \<Rightarrow> nat" where
  "count_type t results = length (filter (\<lambda>r. result_type r = t) results)"

definition build_summary :: "recommendation_input \<Rightarrow> recommendation list \<Rightarrow> string" where
  "build_summary input topRecs =
     (if 0 < length topRecs then
        (let businessRec = find (\<lambda>r. rec_type r = TBusiness) topRecs;
             marketRec = find (\<lambda>r. rec_type r = TMarket) topRecs;
             resourceRec = find (\<lambda>r. rec_type r = TResource) topRecs;
             cropRec = find (\<lambda>r. rec_type r = TCrop) topRecs;
             business = count_type ''business_feasibility'' (analysisResults input);
             forecasts = count_type ''demand_forecast'' (analysisResults input);
             optimization = count_type ''optimization'' (analysisResults input)
         in (if 0 < business \<or> 0 < forecasts \<or> 0 < optimization then
               ''Based on your ''
               @ (if 0 < business then ''business feasibility analysis, '' else [])
               @ (if 0 < forecasts then ''demand forecasting, '' else [])
               @ (if 0 < optimization then ''optimization analysis, '' else [])
               @ ''we recommend: ''
             else ''Based on your historical data, we recommend: '')
            @ title_sentence businessRec
            @ title_sentence marketRec
            @ title_sentence resourceRec
            @ title_sentence cropRec
            @ (case currentSeason input of
                 None \<Rightarrow> []
               | Some s \<Rightarrow>
                   ''Consider adjusting your strategy for the '' @ season_name s @ '' season.''))
      else fallback_summary)"

record recommendation_result =
  set_id :: string
  set_userId :: string
  recommendations :: "recommendation list"
  summary :: string
  set_createdAt :: "int option"

text \<open>The candidates of the five sources, concatenated in the order in which they are
  produced.\<close>

definition all_candidates :: "clock \<Rightarrow> recommendation_input \<Rightarrow> emitter" where
  "all_candidates clk input =
     (let sortedResults = take 10 (sortByRecency (analysisResults input))
      in then_emit (extractBusinessRecommendations clk sortedResults)
           (then_emit (extractForecastRecommendations clk sortedResults)
             (then_emit (extractOptimizationRecommendations clk sortedResults)
               (then_emit (extractChatInsights clk (chatHistory input))
                  (addSeasonalRecommendations clk (currentSeason input))))))"

definition generateRecommendations ::
    "clock \<Rightarrow> recommendation_input \<Rightarrow> nat \<Rightarrow> recommendation_result \<times> nat" where
  "generateRecommendations clk input k =
     (let (allRecommendations, k1) = all_candidates clk input k;
          finalRecommendations = take 10 (rank allRecommendations);
          topRecs = take 5 finalRecommendations
      in (\<lparr> set_id = ''rec-set-'' @ string_of_int (clk k1),
            set_userId = userId input,
            recommendations = finalRecommendations,
            summary = build_summary input topRecs,
            set_createdAt = Some (clk (Suc k1)) \<rparr>, Suc (Suc k1)))"

subsection \<open>Storing a recommendation set\<close>

text \<open>
  The argument of \<^verbatim>\<open>createRecommendationSet\<close>. Its declared type lives outside the
  sources at hand; the recommendation service passes an object with the four properties
  \<^verbatim>\<open>id\<close>, \<^verbatim>\<open>user_id\<close>, \<^verbatim>\<open>summary\<close> and \<^verbatim>\<open>created_at\<close>. \<open>None\<close> is an object without
  the property.
\<close>

record set_data =
  sd_id :: "string option"
  sd_user_id :: string
  sd_summary :: string
  sd_created_at :: "int option"

record stored_set =
  stored_id :: string
  stored_user_id :: string
  stored_summary :: string
  stored_created_at :: int

text \<open>
  \<^verbatim>\<open>{ id: v4(), ...setData, created_at: new Date() }\<close>, inserted into the collection and
  returned. \<open>fresh\<close> is the value of \<^verbatim>\<open>v4()\<close> and \<open>now\<close> the value of \<^verbatim>\<open>new Date()\<close>.
  In an object literal a later property replaces an earlier one of the same name: the
  spread comes after \<^verbatim>\<open>id\<close> and before \<^verbatim>\<open>created_at\<close>.
\<close>

definition createRecommendationSet ::
    "string \<Rightarrow> int \<Rightarrow> set_data \<Rightarrow> stored_set list \<Rightarrow> stored_set \<times> stored_set list" where
  "createRecommendationSet fresh now setData collection =
     (let s = \<lparr> stored_id = (case sd_id setData of None \<Rightarrow> fresh | Some i \<Rightarrow> i),
                stored_user_id = sd_user_id setData,
                stored_summary = sd_summary setData,
                stored_created_at = now \<rparr>
      in (s, collection @ [s]))"

text \<open>The object \<^verbatim>\<open>setToInsert\<close> that \<^verbatim>\<open>RecommendationService.generateRecommendations\<close>
  builds from its own \<^verbatim>\<open>uuid()\<close> and its own \<^verbatim>\<open>new Date()\<close>.\<close>

definition setToInsert :: "string \<Rightarrow> string \<Rightarrow> string \<Rightarrow> int \<Rightarrow> set_data" where
  "setToInsert setId user text_summary service_now =
     \<lparr> sd_id = Some setId,
       sd_user_id = user,
       sd_summary = text_summary,
       sd_created_at = Some service_now \<rparr>"

subsection \<open>Notions used in the properties\<close>

text \<open>\<open>precedes a b xs\<close>: some occurrence of \<open>a\<close> in \<open>xs\<close> comes before some occurrence of
  \<open>b\<close>.\<close>

fun precedes :: "'a \<Rightarrow> 'a \<Rightarrow> 'a list \<Rightarrow> bool" where
  "precedes a b [] = False"
| "precedes a b (x # xs) = ((x = a \<and> b \<in> set xs) \<or> precedes a b xs)"




subsection \<open>Example inputs\<close>

text \<open>A clock that starts at \<open>t\<close> and advances by one millisecond with every reading.\<close>

definition clock_from :: "int \<Rightarrow> clock" where
  "clock_from t n = t + int n"

definition empty_data :: analysis_data where
  "empty_data =
     \<lparr> businessName = None, profitMargin = None, roi = None, paybackPeriod = None,
       operationalCosts = None, breakEvenUnits = None, monthlySalesVolume = None,
       productName = None, forecasted = None, chart = None, accuracy = None,
       model_name = None, feasible = None, objectiveValue = None, variables = None,
       constraints = None \<rparr>"

definition bare_business_result :: analysis_result where
  "bare_business_result =
     \<lparr> result_id = ''a1'', user_id = ''u1'', result_type = ''business_feasibility'',
       data = empty_data, created_at = Some 1000, updated_at = None \<rparr>"

definition bare_input :: recommendation_input where
  "bare_input =
     \<lparr> userId = ''u1'', analysisResults = [bare_business_result], chatHistory = [],
       currentSeason = None \<rparr>"

text \<open>A demand forecast whose accuracy metric reports a MAPE of zero.\<close>

definition perfect_forecast_result :: analysis_result where
  "perfect_forecast_result =
     \<lparr> result_id = ''f1'', user_id = ''u1'', result_type = ''demand_forecast'',
       data = empty_data \<lparr> productName := Some ''Rice'',
                            accuracy := Some \<lparr> mape = Some 0 \<rparr> \<rparr>,
       created_at = Some 1000, updated_at = None \<rparr>"





text \<open>A chat of a question and an answer; the answer mentions a risk, in capitals.\<close>

definition risk_chat :: "chat_message list" where
  "risk_chat =
     [\<lparr> message_id = ''m1'', conversation_id = ''c1'', role = ''user'',
        content = ''Is it safe to expand?'', sent_at = Some 1000 \<rparr>,
      \<lparr> message_id = ''m2'', conversation_id = ''c1'', role = ''assistant'',
        content = ''It depends. The RISK is high! Wait.'', sent_at = Some 2000 \<rparr>]"

section \<open>Properties\<close>

subsection \<open>Emitters\<close>

lemma then_emit_no_emit_left: "then_emit no_emit g = g"
  by (rule ext) (simp add: then_emit_def no_emit_def split_def)

lemma then_emit_assoc: "then_emit (then_emit f g) h = then_emit f (then_emit g h)"
  by (rule ext) (simp add: then_emit_def split_def Let_def)

lemma forEach_append:
  "forEach body (xs @ ys) = then_emit (forEach body xs) (forEach body ys)"
  by (induction xs) (simp_all add: then_emit_no_emit_left then_emit_assoc)

lemma filter_then_emit:
  "filter P (fst (then_emit f g k)) = filter P (fst (f k)) @ filter P (fst (g (snd (f k))))"
  by (simp add: then_emit_def split_def Let_def)

lemma forEach_filter_none:
  "(\<And>r k. r \<in> set rs \<Longrightarrow> filter P (fst (body r k)) = []) \<Longrightarrow>
   filter P (fst (forEach body rs k)) = []"
  by (induction rs arbitrary: k) (simp_all add: filter_then_emit no_emit_def)

text \<open>The candidates that a loop pushes are those of its body on each record in turn, each
  at the count of clock readings that the records before it have left.\<close>

lemma forEach_record:
  "fst (forEach body (before @ r # after) k) =
     fst (forEach body before k)
     @ fst (body r (snd (forEach body before k)))
     @ fst (forEach body after (snd (body r (snd (forEach body before k)))))"
  by (simp add: forEach_append then_emit_def split_def Let_def)

subsection \<open>Inputs without content\<close>

lemma js_sort_Nil [simp]: "js_sort cmp [] = []"
  by (simp add: js_sort_def)

lemma js_sort_single [simp]: "js_sort cmp [x] = [x]"
  by (simp add: js_sort_def)

lemma then_emit_no_emit [simp]: "then_emit no_emit no_emit = no_emit"
  by (rule ext) (simp add: then_emit_def no_emit_def)

lemma forEach_no_emit [simp]: "forEach (\<lambda>r. no_emit) rs = no_emit"
  by (induction rs) simp_all

lemma extract_Nil [simp]:
  "extractBusinessRecommendations clk [] = no_emit"
  "extractForecastRecommendations clk [] = no_emit"
  "extractOptimizationRecommendations clk [] = no_emit"
  by (simp_all add: extractBusinessRecommendations_def extractForecastRecommendations_def
      extractOptimizationRecommendations_def sortByRecency_def)

lemma collect_categories_Nil [simp]: "collect_categories [] = (\<lambda>c. [])"
  by (simp add: collect_categories_def recentMessages_def)

lemma chat_candidate_empty [simp]: "chat_candidate clk (\<lambda>c. []) = (\<lambda>c. no_emit)"
  by (intro ext) (simp add: chat_candidate_def no_emit_def)

lemma extractChatInsights_Nil [simp]: "extractChatInsights clk [] = no_emit"
  by (simp add: extractChatInsights_def)

lemma addSeasonal_None [simp]: "addSeasonalRecommendations clk None = no_emit"
  by (rule ext) (simp add: addSeasonalRecommendations_def no_emit_def)

lemma all_candidates_empty:
  "all_candidates clk
     \<lparr> userId = u, analysisResults = [], chatHistory = [], currentSeason = None \<rparr> = no_emit"
  by (simp add: all_candidates_def sortByRecency_def)

lemma no_candidates_fallback:
  "recommendations (fst (generateRecommendations clk input k)) = [] \<Longrightarrow>
   summary (fst (generateRecommendations clk input k)) = fallback_summary"
  by (simp add: generateRecommendations_def Let_def split_def build_summary_def)

subsection \<open>Truncation\<close>

text \<open>
  Claim C4. For every input bundle, whatever the analysis results, the chat history and
  the season, and for every clock, the list of candidates that
  \<^verbatim>\<open>generateRecommendations\<close> returns has at most 10 elements.
\<close>

theorem generate_at_most_ten:
  "length (recommendations (fst (generateRecommendations clk input k))) \<le> 10"
  by (simp add: generateRecommendations_def Let_def split_def)

subsection \<open>The empty input\<close>

text \<open>
  Claim C5. For an empty list of analysis results, an empty chat history and no season,
  \<^verbatim>\<open>generateRecommendations\<close> returns no candidate and the fixed fallback text as
  summary; and for every input whatever, a result without candidates has the fallback
  text as summary.
\<close>

theorem empty_input_fallback:
  "recommendations (fst (generateRecommendations clk
      \<lparr> userId = u, analysisResults = [], chatHistory = [], currentSeason = None \<rparr> k)) = []
   \<and> summary (fst (generateRecommendations clk
      \<lparr> userId = u, analysisResults = [], chatHistory = [], currentSeason = None \<rparr> k))
     = ''Insufficient data for personalized recommendations. Continue using Arina to analyze your agricultural business for tailored insights.''
   \<and> (\<forall>input. recommendations (fst (generateRecommendations clk input k)) = [] \<longrightarrow>
         summary (fst (generateRecommendations clk input k)) = fallback_summary)"
proof (intro conjI allI impI)
  let ?input = "\<lparr> userId = u, analysisResults = [], chatHistory = [], currentSeason = None \<rparr>"
  show none: "recommendations (fst (generateRecommendations clk ?input k)) = []"
    by (simp add: generateRecommendations_def all_candidates_empty no_emit_def rank_def)
  from no_candidates_fallback [OF none]
  show "summary (fst (generateRecommendations clk ?input k))
     = ''Insufficient data for personalized recommendations. Continue using Arina to analyze your agricultural business for tailored insights.''"
    by (simp add: fallback_summary_def)
next
  fix input
  assume "recommendations (fst (generateRecommendations clk input k)) = []"
  then show "summary (fst (generateRecommendations clk input k)) = fallback_summary"
    by (rule no_candidates_fallback)
qed

text \<open>An input with one business-feasibility record that fires no rule: no candidate, and
  the fallback text.\<close>

theorem empty_input_fallback_witness:
  "recommendations (fst (generateRecommendations (clock_from 0) bare_input 0)) = []
   \<and> summary (fst (generateRecommendations (clock_from 0) bare_input 0)) = fallback_summary"
proof -
  have none: "recommendations (fst (generateRecommendations (clock_from 0) bare_input 0)) = []"
    by (simp add: generateRecommendations_def all_candidates_def bare_input_def
        bare_business_result_def empty_data_def sortByRecency_def
        extractBusinessRecommendations_def extractForecastRecommendations_def
        extractOptimizationRecommendations_def businessRecord_def biz_profit_def biz_roi_def
        biz_cost_def biz_breakeven_def then_emit_def no_emit_def rank_def)
  with empty_input_fallback [where clk = "clock_from 0" and k = 0 and u = "''u1''"]
  show ?thesis by blast
qed

subsection \<open>Seasonal advisor\<close>

text \<open>
  Claim C6, as amended. Apart from the id and the creation time of each candidate, which
  are readings of the clock, the output of the seasonal advisor is a function of the
  optional season alone. Without a season there is no candidate. For each of the four
  seasons there are exactly two: first a candidate of type crop, then one of type
  business, both with confidence 0.70 and source seasonal, whose descriptions list the
  crops and the activities of that season, joined by commas.
\<close>

theorem seasonal_advisor_contents:
  "fst (addSeasonalRecommendations clk None k) = []
   \<and> length (fst (addSeasonalRecommendations clk (Some s) k)) = 2
   \<and> map rec_type (fst (addSeasonalRecommendations clk (Some s) k)) = [TCrop, TBusiness]
   \<and> map confidence (fst (addSeasonalRecommendations clk (Some s) k)) = [0.7, 0.7]
   \<and> map source (fst (addSeasonalRecommendations clk (Some s) k)) = [SSeasonal, SSeasonal]
   \<and> map description (fst (addSeasonalRecommendations clk (Some s) k)) =
       [''Consider focusing on these crops this '' @ season_name s @ '': ''
          @ join '', '' (seasonalCrops s) @ ''.'',
        ''Key activities for this '' @ season_name s @ '': ''
          @ join '', '' (seasonalActivities s) @ ''.'']
   \<and> map description (fst (addSeasonalRecommendations clk (Some Spring) k)) =
       [''Consider focusing on these crops this spring: Corn, Soybeans, Rice, Cotton, Vegetables.'',
        ''Key activities for this spring: Planting, Soil preparation, Fertilizing, Pest management planning.'']
   \<and> map description (fst (addSeasonalRecommendations clk (Some Summer) k)) =
       [''Consider focusing on these crops this summer: Sunflower, Sorghum, Millet, Vegetables, Fruits.'',
        ''Key activities for this summer: Irrigation management, Pest control, Crop monitoring, Early harvest planning.'']
   \<and> map description (fst (addSeasonalRecommendations clk (Some Fall) k)) =
       [''Consider focusing on these crops this fall: Winter Wheat, Barley, Rapeseed, Root vegetables.'',
        ''Key activities for this fall: Harvesting, Storage preparation, Market research, Winter crop planting.'']
   \<and> map description (fst (addSeasonalRecommendations clk (Some Winter) k)) =
       [''Consider focusing on these crops this winter: Planning, Equipment maintenance, Soil preparation.'',
        ''Key activities for this winter: Equipment maintenance, Financial planning, Education, Crop planning.'']
   \<and> map (\<lambda>r. r \<lparr> rec_id := [], createdAt := None \<rparr>)
         (fst (addSeasonalRecommendations clk (Some s) k))
     = map (\<lambda>r. r \<lparr> rec_id := [], createdAt := None \<rparr>)
         (fst (addSeasonalRecommendations clk' (Some s) k'))"
  by (simp add: addSeasonalRecommendations_def no_emit_def)

text \<open>
  Claim C6, as stated, fails: the output is not a function of the season alone. Two calls
  for the same season at different readings of the clock return different candidates.
\<close>

theorem seasonal_advisor_reads_clock:
  "fst (addSeasonalRecommendations (clock_from 0) (Some Winter) 0)
   \<noteq> fst (addSeasonalRecommendations (clock_from 1) (Some Winter) 0)"
  by (simp add: addSeasonalRecommendations_def clock_from_def)

subsection \<open>Optimization extractor\<close>



subsection \<open>Storing a recommendation set\<close>

text \<open>
  Claim C9, as amended. For every call of \<^verbatim>\<open>createRecommendationSet\<close> the creation time
  of the stored and returned set is the current time of the store, whatever
  \<^verbatim>\<open>created_at\<close> the caller supplied. Its id is the fresh id of the store only when the
  caller's data carries no \<^verbatim>\<open>id\<close>; when it carries one, as the data of the recommendation
  service does, the id of the set is the caller's. The returned set is the one appended
  to the collection.
\<close>

theorem stored_set_id_and_time:
  "stored_created_at (fst (createRecommendationSet fresh now setData collection)) = now
   \<and> (sd_id setData = None \<longrightarrow>
        stored_id (fst (createRecommendationSet fresh now setData collection)) = fresh)
   \<and> (\<forall>i. sd_id setData = Some i \<longrightarrow>
        stored_id (fst (createRecommendationSet fresh now setData collection)) = i)
   \<and> snd (createRecommendationSet fresh now setData collection)
       = collection @ [fst (createRecommendationSet fresh now setData collection)]"
  by (simp add: createRecommendationSet_def Let_def)

theorem stored_set_id_and_time_witness:
  "stored_created_at (fst (createRecommendationSet ''id-of-the-store'' 2000
      (setToInsert ''id-of-the-service'' ''u1'' ''Summary.'' 1000) [])) = 2000
   \<and> stored_id (fst (createRecommendationSet ''id-of-the-store'' 2000
      (setToInsert ''id-of-the-service'' ''u1'' ''Summary.'' 1000) [])) = ''id-of-the-service''
   \<and> stored_id (fst (createRecommendationSet ''id-of-the-store'' 2000
      \<lparr> sd_id = None, sd_user_id = ''u1'', sd_summary = ''Summary.'', sd_created_at = None \<rparr> []))
     = ''id-of-the-store''"
  using stored_set_id_and_time [of "''id-of-the-store''" 2000
      "setToInsert ''id-of-the-service'' ''u1'' ''Summary.'' 1000" "[]"]
    stored_set_id_and_time [of "''id-of-the-store''" 2000
      "\<lparr> sd_id = None, sd_user_id = ''u1'', sd_summary = ''Summary.'', sd_created_at = None \<rparr>" "[]"]
  by (simp add: setToInsert_def)

text \<open>
  Claim C9, as stated, fails: with the object that the recommendation service passes, the
  id of the stored set is not the fresh id of the store.
\<close>

theorem caller_id_replaces_fresh_id:
  "stored_id (fst (createRecommendationSet ''id-of-the-store'' 2000
      (setToInsert ''id-of-the-service'' ''u1'' ''Summary.'' 1000) []))
   \<noteq> ''id-of-the-store''"
  by (simp add: createRecommendationSet_def setToInsert_def Let_def)

subsection \<open>Demand-forecast extractor\<close>

text \<open>The accuracy rule on a record that carries a MAPE.\<close>

lemma forecast_accuracy_cases:
  "accuracy (data result) = Some acc \<Longrightarrow> mape acc = Some m \<Longrightarrow>
   map (\<lambda>c. (title c, confidence c)) (fst (forecast_accuracy clk result k)) =
     (if m \<noteq> 0 \<and> m < 10 then [(''High Forecast Reliability'', 0.8)]
      else if 20 < m then [(''Forecast Uncertainty Alert'', 0.7)]
      else [])"
  by (simp add: forecast_accuracy_def)

text \<open>
  Claim C2 says that a MAPE that is present and less than 10 yields the high-reliability
  candidate. The code tests the MAPE for truth before it compares it, and \<open>0\<close> is not
  true: for a demand forecast whose MAPE is \<open>0\<close> the extractor returns no candidate.
\<close>

theorem mape_zero_no_candidate:
  "fst (extractForecastRecommendations clk [perfect_forecast_result] k) = []"
  by (simp add: extractForecastRecommendations_def perfect_forecast_result_def empty_data_def
      sortByRecency_def forecastRecord_def forecast_trend_def forecast_seasonal_def
      forecast_accuracy_def then_emit_def no_emit_def)



subsection \<open>Sorting with a comparator\<close>















subsection \<open>Order of occurrence\<close>

lemma precedes_iff_nth:
  "precedes a b xs \<longleftrightarrow> (\<exists>i j. i < j \<and> j < length xs \<and> xs ! i = a \<and> xs ! j = b)"
proof (induction xs)
  case Nil
  then show ?case by simp
next
  case (Cons x xs)
  show ?case
  proof
    assume "precedes a b (x # xs)"
    then consider "x = a" "b \<in> set xs" | "precedes a b xs" by auto
    then show "\<exists>i j. i < j \<and> j < length (x # xs) \<and> (x # xs) ! i = a \<and> (x # xs) ! j = b"
    proof cases
      case 1
      then obtain n where "n < length xs" "xs ! n = b"
        by (auto simp add: in_set_conv_nth)
      with 1 have "0 < Suc n \<and> Suc n < length (x # xs) \<and> (x # xs) ! 0 = a \<and> (x # xs) ! Suc n = b"
        by simp
      then show ?thesis by blast
    next
      case 2
      with Cons.IH obtain i j where "i < j" "j < length xs" "xs ! i = a" "xs ! j = b"
        by blast
      then have "Suc i < Suc j \<and> Suc j < length (x # xs) \<and> (x # xs) ! Suc i = a \<and> (x # xs) ! Suc j = b"
        by simp
      then show ?thesis by blast
    qed
  next
    assume "\<exists>i j. i < j \<and> j < length (x # xs) \<and> (x # xs) ! i = a \<and> (x # xs) ! j = b"
    then obtain i j where ij: "i < j" "j < length (x # xs)" "(x # xs) ! i = a" "(x # xs) ! j = b"
      by blast
    from ij(1) obtain j' where j': "j = Suc j'" by (cases j) auto
    show "precedes a b (x # xs)"
    proof (cases i)
      case 0
      with ij j' have "x = a" "b \<in> set xs" by auto
      then show ?thesis by simp
    next
      case (Suc i')
      with ij j' have "i' < j' \<and> j' < length xs \<and> xs ! i' = a \<and> xs ! j' = b" by simp
      with Cons.IH have "precedes a b xs" by blast
      then show ?thesis by simp
    qed
  qed
qed






subsection \<open>Ranking\<close>
















subsection \<open>Sentences and keywords\<close>

lemma toLowerChar_range:
  "toLowerChar c = c \<or> toLowerChar c \<in> set ''abcdefghijklmnopqrstuvwxyz''"
proof (cases "map_of (zip ''ABCDEFGHIJKLMNOPQRSTUVWXYZ'' ''abcdefghijklmnopqrstuvwxyz'') c")
  case None
  show ?thesis
    unfolding toLowerChar_def None by (simp only: option.case simp_thms)
next
  case (Some d)
  then have "(c, d) \<in> set (zip ''ABCDEFGHIJKLMNOPQRSTUVWXYZ'' ''abcdefghijklmnopqrstuvwxyz'')"
    by (rule map_of_SomeD)
  then have "d \<in> set ''abcdefghijklmnopqrstuvwxyz''"
    by (rule set_zip_rightD)
  then show ?thesis
    unfolding toLowerChar_def Some by (simp only: option.case simp_thms)
qed

lemma letters_not_delim: "d \<in> set ''abcdefghijklmnopqrstuvwxyz'' \<Longrightarrow> \<not> is_delim d"
  by (auto simp add: is_delim_def)

lemma toLowerChar_delim:
  assumes "is_delim c"
  shows "toLowerChar c = c"
proof -
  have "toLowerChar CHR ''.'' = CHR ''.''" "toLowerChar CHR ''!'' = CHR ''!''"
    "toLowerChar CHR ''?'' = CHR ''?''"
    by (simp_all add: toLowerChar_def)
  with assms show ?thesis
    unfolding is_delim_def by auto
qed

lemma is_delim_toLowerChar: "is_delim (toLowerChar c) = is_delim c"
proof (cases "is_delim c")
  case True
  then show ?thesis by (simp add: toLowerChar_delim)
next
  case False
  with toLowerChar_range [of c] letters_not_delim [of "toLowerChar c"] show ?thesis
    by auto
qed

lemma split_sentences_not_Nil: "split_sentences s \<noteq> []"
  by (induction s) (auto split: list.splits)

lemma includes_str_prefix: "prefix k s \<Longrightarrow> includes_str s k"
  by (cases s) auto

lemma prefix_first_sentence:
  "\<forall>c\<in>set k. \<not> is_delim c \<Longrightarrow> prefix k (toLowerCase s) \<Longrightarrow>
   prefix k (toLowerCase (hd (split_sentences s)))"
proof (induction s arbitrary: k)
  case Nil
  then show ?case by (simp add: toLowerCase_def)
next
  case (Cons c cs)
  show ?case
  proof (cases k)
    case Nil
    then show ?thesis by simp
  next
    case (Cons k0 k')
    with Cons.prems have k0: "k0 = toLowerChar c" and rest: "prefix k' (toLowerCase cs)"
      and nd: "\<not> is_delim k0" and nd': "\<forall>c\<in>set k'. \<not> is_delim c"
      by (simp_all add: toLowerCase_def)
    from k0 nd have c: "\<not> is_delim c"
      by (simp add: is_delim_toLowerChar)
    obtain p ps where split: "split_sentences cs = p # ps"
      using split_sentences_not_Nil [of cs] by (cases "split_sentences cs") auto
    from Cons.IH [OF nd' rest] split have "prefix k' (toLowerCase p)"
      by simp
    with c split k0 Cons show ?thesis
      by (simp add: toLowerCase_def)
  qed
qed

lemma includes_sentence:
  "\<forall>c\<in>set k. \<not> is_delim c \<Longrightarrow> includes_str (toLowerCase s) k \<Longrightarrow>
   \<exists>p\<in>set (split_sentences s). includes_str (toLowerCase p) k"
proof (induction s)
  case Nil
  then show ?case by (simp add: toLowerCase_def)
next
  case (Cons c cs)
  from Cons.prems(2) consider "prefix k (toLowerCase (c # cs))" | "includes_str (toLowerCase cs) k"
    by (auto simp add: toLowerCase_def)
  then show ?case
  proof cases
    case 1
    with Cons.prems(1) have "prefix k (toLowerCase (hd (split_sentences (c # cs))))"
      by (rule prefix_first_sentence)
    then have "includes_str (toLowerCase (hd (split_sentences (c # cs)))) k"
      by (rule includes_str_prefix)
    moreover have "hd (split_sentences (c # cs)) \<in> set (split_sentences (c # cs))"
      using split_sentences_not_Nil [of "c # cs"] by (rule hd_in_set)
    ultimately show ?thesis by blast
  next
    case 2
    with Cons.IH Cons.prems(1) obtain p where p: "p \<in> set (split_sentences cs)"
      "includes_str (toLowerCase p) k"
      by blast
    obtain p0 ps where split: "split_sentences cs = p0 # ps"
      using split_sentences_not_Nil [of cs] by (cases "split_sentences cs") auto
    show ?thesis
    proof (cases "is_delim c")
      case True
      then have "set (split_sentences cs) \<subseteq> set (split_sentences (c # cs))"
        by (auto split: list.splits)
      with p show ?thesis by blast
    next
      case False
      then have now: "split_sentences (c # cs) = (c # p0) # ps"
        using split by simp
      show ?thesis
      proof (cases "p = p0")
        case True
        with p(2) have "includes_str (toLowerCase (c # p0)) k"
          by (simp add: toLowerCase_def)
        moreover have "c # p0 \<in> set (split_sentences (c # cs))"
          unfolding now by simp
        ultimately show ?thesis by blast
      next
        case False
        with p(1) split have "p \<in> set ps" by simp
        then have "p \<in> set (split_sentences (c # cs))"
          unfolding now by simp
        with p(2) show ?thesis by blast
      qed
    qed
  qed
qed

lemma collect_keyword_grows:
  "categories c \<noteq> [] \<Longrightarrow> collect_keyword m e categories c \<noteq> []"
  by (simp add: collect_keyword_def split: list.splits)

lemma fold_collect_keyword_grows:
  "categories c \<noteq> [] \<Longrightarrow> fold (collect_keyword m) es categories c \<noteq> []"
  by (induction es arbitrary: categories) (simp_all add: collect_keyword_grows)

lemma collect_message_grows:
  "categories c \<noteq> [] \<Longrightarrow> collect_message m categories c \<noteq> []"
  by (simp add: collect_message_def fold_collect_keyword_grows)

lemma fold_collect_message_grows:
  "categories c \<noteq> [] \<Longrightarrow> fold collect_message ms categories c \<noteq> []"
  by (induction ms arbitrary: categories) (simp_all add: collect_message_grows)

lemma collect_keyword_risk:
  assumes "includes_str (toLowerCase (content m)) ''risk''"
  shows "collect_keyword m (''risk'', CRisk) categories CRisk \<noteq> []"
proof -
  have "\<forall>c\<in>set ''risk''. \<not> is_delim c"
    by (simp add: is_delim_def)
  from includes_sentence [OF this assms]
  have "filter (\<lambda>s. includes_str (toLowerCase s) ''risk'') (split_sentences (content m)) \<noteq> []"
    by (simp add: filter_empty_conv)
  with assms show ?thesis
    by (simp add: collect_keyword_def split: list.splits)
qed

lemma collect_message_risk:
  assumes "includes_str (toLowerCase (content m)) ''risk''"
  shows "collect_message m categories CRisk \<noteq> []"
proof -
  have "(''risk'', CRisk) \<in> set keywordMap"
    by (simp add: keywordMap_def)
  then obtain pre post where parts: "keywordMap = pre @ (''risk'', CRisk) # post"
    by (auto dest: split_list)
  have "collect_message m categories =
      fold (collect_keyword m) post
        (collect_keyword m (''risk'', CRisk) (fold (collect_keyword m) pre categories))"
    unfolding collect_message_def parts by simp
  with collect_keyword_risk [OF assms] show ?thesis
    by (simp add: fold_collect_keyword_grows)
qed

lemma collect_categories_risk:
  assumes "\<exists>m\<in>set (recentMessages messages). includes_str (toLowerCase (content m)) ''risk''"
  shows "collect_categories messages CRisk \<noteq> []"
proof -
  from assms obtain m where m: "m \<in> set (recentMessages messages)"
    "includes_str (toLowerCase (content m)) ''risk''"
    by blast
  from m(1) obtain pre post where parts: "recentMessages messages = pre @ m # post"
    by (auto dest: split_list)
  have "collect_categories messages =
      fold collect_message post (collect_message m (fold collect_message pre (\<lambda>c. [])))"
    unfolding collect_categories_def parts by simp
  with collect_message_risk [OF m(2)] show ?thesis
    by (simp add: fold_collect_message_grows)
qed

subsection \<open>Chat-insight extractor\<close>

lemma other_category_id:
  "c \<noteq> CRisk \<Longrightarrow>
   filter (\<lambda>r. prefix ''chat-risk-'' (rec_id r)) (fst (chat_candidate clk categories c k)) = []"
  by (cases c) (simp_all add: chat_candidate_def split: list.splits)

lemma other_category_title:
  "c \<noteq> CRisk \<Longrightarrow>
   filter (\<lambda>r. title r = ''Risk Management'') (fst (chat_candidate clk categories c k)) = []"
  by (cases c) (simp_all add: chat_candidate_def split: list.splits)

lemma only_risk_candidate:
  assumes other: "\<And>c k. c \<noteq> CRisk \<Longrightarrow> filter P (fst (chat_candidate clk categories c k)) = []"
  shows "filter P (fst (forEach (chat_candidate clk categories) category_keys k))
         = filter P (fst (chat_candidate clk categories CRisk
             (snd (forEach (chat_candidate clk categories) [CGrowth, CProfit, CCost] k))))"
proof -
  let ?body = "chat_candidate clk categories"
  have keys: "category_keys = [CGrowth, CProfit, CCost] @ [CRisk] @ [CMarket, CSeasonal, CResource]"
    by (simp add: category_keys_def)
  have before: "filter P (fst (forEach ?body [CGrowth, CProfit, CCost] j)) = []" for j
    by (rule forEach_filter_none) (auto intro: other)
  have after: "filter P (fst (forEach ?body [CMarket, CSeasonal, CResource] j)) = []" for j
    by (rule forEach_filter_none) (auto intro: other)
  have single: "forEach ?body [CRisk] = ?body CRisk"
    by (rule ext) (simp add: then_emit_def no_emit_def split_def)
  show ?thesis
    unfolding keys forEach_append single
    by (simp only: filter_then_emit before after append_Nil append_Nil2)
qed

text \<open>
  Claim C10. Whenever one of the 10 most recent assistant messages contains ``risk'' in
  any letter case, the chat-insight extractor emits exactly one candidate for the risk
  category: exactly one candidate has an id that starts with \<^verbatim>\<open>chat-risk-\<close>, it is the
  only one titled ``Risk Management'', and its type is business, by the default branch of
  the \<^verbatim>\<open>switch\<close>, its confidence 0.60 and its source chat.
\<close>

theorem risk_keyword_candidate:
  assumes "\<exists>m\<in>set (recentMessages messages). includes_str (toLowerCase (content m)) ''risk''"
  shows "\<exists>c. filter (\<lambda>r. prefix ''chat-risk-'' (rec_id r))
               (fst (extractChatInsights clk messages k)) = [c]
            \<and> filter (\<lambda>r. title r = ''Risk Management'')
               (fst (extractChatInsights clk messages k)) = [c]
            \<and> title c = ''Risk Management'' \<and> rec_type c = TBusiness
            \<and> confidence c = 0.6 \<and> source c = SChat"
proof -
  let ?B = "collect_categories messages"
  let ?j = "snd (forEach (chat_candidate clk ?B) [CGrowth, CProfit, CCost] k)"
  from collect_categories_risk [OF assms] obtain s ss where bucket: "?B CRisk = s # ss"
    by (cases "?B CRisk") auto
  have by_id: "filter (\<lambda>r. prefix ''chat-risk-'' (rec_id r))
        (fst (extractChatInsights clk messages k))
      = filter (\<lambda>r. prefix ''chat-risk-'' (rec_id r)) (fst (chat_candidate clk ?B CRisk ?j))"
    unfolding extractChatInsights_def by (rule only_risk_candidate) (rule other_category_id)
  have by_title: "filter (\<lambda>r. title r = ''Risk Management'')
        (fst (extractChatInsights clk messages k))
      = filter (\<lambda>r. title r = ''Risk Management'') (fst (chat_candidate clk ?B CRisk ?j))"
    unfolding extractChatInsights_def by (rule only_risk_candidate) (rule other_category_title)
  obtain c where c: "fst (chat_candidate clk ?B CRisk ?j) = [c]"
    "prefix ''chat-risk-'' (rec_id c)" "title c = ''Risk Management''"
    "rec_type c = TBusiness" "confidence c = 0.6" "source c = SChat"
    by (simp add: chat_candidate_def bucket)
  from by_id by_title c show ?thesis
    by simp
qed

lemma risk_chat_recent:
  "\<exists>m\<in>set (recentMessages risk_chat). includes_str (toLowerCase (content m)) ''risk''"
  by (simp add: recentMessages_def risk_chat_def toLowerCase_def toLowerChar_def)

lemma risk_chat_buckets:
  "collect_categories risk_chat = (\<lambda>c. [])(CRisk := [''The RISK is high''])"
  by (simp add: collect_categories_def recentMessages_def risk_chat_def collect_message_def
      keywordMap_def collect_keyword_def toLowerCase_def toLowerChar_def is_delim_def
      trim_def is_space_def)

lemma risk_chat_insights:
  "map (\<lambda>r. (rec_id r, title r, description r, createdAt r))
     (fst (extractChatInsights (clock_from 0) risk_chat 0))
   = [(''chat-risk-0'', ''Risk Management'', ''The RISK is high'', Some 1)]"
  by (simp add: extractChatInsights_def risk_chat_buckets category_keys_def chat_candidate_def
      then_emit_def no_emit_def clock_from_def string_of_int_def digits.simps)

text \<open>The example chat: the answer of the assistant yields the one candidate, whose
  description is the sentence that mentions the risk.\<close>

theorem risk_keyword_candidate_witness:
  "(\<exists>c. filter (\<lambda>r. prefix ''chat-risk-'' (rec_id r))
          (fst (extractChatInsights (clock_from 0) risk_chat 0)) = [c]
       \<and> filter (\<lambda>r. title r = ''Risk Management'')
          (fst (extractChatInsights (clock_from 0) risk_chat 0)) = [c]
       \<and> title c = ''Risk Management'' \<and> rec_type c = TBusiness
       \<and> confidence c = 0.6 \<and> source c = SChat)
   \<and> map (\<lambda>r. (rec_id r, title r, description r, createdAt r))
        (fst (extractChatInsights (clock_from 0) risk_chat 0))
      = [(''chat-risk-0'', ''Risk Management'', ''The RISK is high'', Some 1)]"
  using risk_keyword_candidate [OF risk_chat_recent, of "clock_from 0" 0] risk_chat_insights
  by (rule conjI)

end
